theory Spec2Isabelle
  imports Complex_Main
begin

section \<open>Hurricane constraint engine: data model\<close>

text \<open>
  Shallow embedding of \<^verbatim>\<open>scripts/constraint_engine_v2.py\<close>: the classes
  \<^verbatim>\<open>ConstraintEngine\<close> and \<^verbatim>\<open>InsightGenerator\<close> and the dataclasses they exchange.

  Conventions of the model.
  \<^item> A Python \<^verbatim>\<open>float\<close> is a \<^typ>\<open>real\<close>: arithmetic is exact, there is no rounding,
    no infinity and no NaN. Division by zero raises, as \<^verbatim>\<open>x / 0.0\<close> does in Python.
    The code computes in binary64, so a computed value of the code can differ from
    the value of the model by rounding errors; the theorems below say what the
    formulas of the code are and what they give in exact arithmetic, and none of them
    bounds the rounded value of a smoothed index.
  \<^item> A \<^verbatim>\<open>datetime\<close> is the number of seconds since a fixed epoch, so that
    \<^verbatim>\<open>(a - b).total_seconds()\<close> is \<open>a - b\<close>.
  \<^item> A \<^verbatim>\<open>str\<close> is a \<^typ>\<open>string\<close> of ASCII characters; the case conversions below
    leave every other character as it is, which Python does not.
  \<^item> An exception is the left injection of a sum; the mutated engine is returned
    next to the result.
  \<^item> The numeric formatting of an f-string (\<^verbatim>\<open>{x:.0f}\<close>) belongs to the Python runtime:
    the functions that format take the formatter of a float as the parameter \<open>fmt\<close>;
    formatting \<^verbatim>\<open>None\<close> with a float format raises \<^verbatim>\<open>TypeError\<close>.
  \<^item> The fields of a dataclass carry a short prefix of the class
    (\<open>nhc_\<close>, \<open>env_\<close>, \<open>cs_\<close>, \<open>di_\<close>), since several classes share field names.
\<close>

type_synonym datetime = real

text \<open>An entry of \<^verbatim>\<open>forecast_positions\<close> (a dictionary the engine never reads).\<close>

typedecl forecast_point

datatype error = ZeroDivisionError | TypeError

record NHCAdvisory =
  nhc_storm_id :: string
  nhc_storm_name :: string
  nhc_advisory_number :: int
  nhc_advisory_time :: datetime
  nhc_classification :: string
  nhc_current_intensity :: real
  nhc_current_pressure :: "real option"
  nhc_latitude :: real
  nhc_longitude :: real
  nhc_movement_direction :: string
  nhc_movement_speed :: real
  nhc_forecast_positions :: "forecast_point list"

record EnvironmentalData =
  env_sst :: real
  env_wind_shear :: real
  env_potential_intensity :: real
  env_latitude :: real
  env_source :: string

record ConstraintState =
  cs_timestamp :: datetime
  cs_storm_name :: string
  cs_I :: real
  cs_R :: real
  cs_S :: real
  cs_L :: real
  cs_dI_dt :: real
  cs_dR_dt :: real
  cs_dS_dt :: real
  cs_dL_dt :: real
  cs_gradient_hazard :: bool
  cs_refusal_risk :: string
  cs_regime :: string
  cs_current_intensity :: real
  cs_nhc_forecast_change :: real
  cs_constraint_summary :: string

record DiagnosticInsight =
  di_timestamp :: datetime
  di_storm_name :: string
  di_nhc_summary :: string
  di_constraint_summary :: string
  di_comparative_insight :: string
  di_forecast_implication :: string
  di_confidence :: real
  di_thermodynamic_ceiling_pct :: real
  di_time_to_peak_estimate :: "string option"
  di_structural_trend :: string

record ConstraintEngine =
  history :: "ConstraintState list"
  history_limit :: nat

section \<open>String helpers of the Python runtime\<close>

text \<open>\<^verbatim>\<open>str.upper\<close> and \<^verbatim>\<open>str.lower\<close> on ASCII: bit 5 of a letter is its case.\<close>

fun upper_char :: "char \<Rightarrow> char" where
  "upper_char (Char b0 b1 b2 b3 b4 b5 b6 b7) =
     (let n = (of_char (Char b0 b1 b2 b3 b4 b5 b6 b7) :: nat)
      in if 97 \<le> n \<and> n \<le> 122 then Char b0 b1 b2 b3 b4 False b6 b7
         else Char b0 b1 b2 b3 b4 b5 b6 b7)"

fun lower_char :: "char \<Rightarrow> char" where
  "lower_char (Char b0 b1 b2 b3 b4 b5 b6 b7) =
     (let n = (of_char (Char b0 b1 b2 b3 b4 b5 b6 b7) :: nat)
      in if 65 \<le> n \<and> n \<le> 90 then Char b0 b1 b2 b3 b4 True b6 b7
         else Char b0 b1 b2 b3 b4 b5 b6 b7)"

definition upper :: "string \<Rightarrow> string" where
  "upper s = map upper_char s"

text \<open>\<^verbatim>\<open>str.capitalize\<close>: first character upper case, the rest lower case.\<close>

fun capitalize :: "string \<Rightarrow> string" where
  "capitalize [] = []"
| "capitalize (c # cs) = upper_char c # map lower_char cs"

text \<open>\<^verbatim>\<open>s.startswith(sub)\<close> and \<^verbatim>\<open>sub in s\<close>.\<close>

fun startswith :: "string \<Rightarrow> string \<Rightarrow> bool" where
  "startswith s [] = True"
| "startswith [] (c # cs) = False"
| "startswith (x # xs) (c # cs) = (x = c \<and> startswith xs cs)"

fun str_in :: "string \<Rightarrow> string \<Rightarrow> bool" where
  "str_in sub [] = (sub = [])"
| "str_in sub (x # xs) = (startswith (x # xs) sub \<or> str_in sub xs)"

text \<open>\<^verbatim>\<open>" ".join(parts)\<close>.\<close>

fun join_space :: "string list \<Rightarrow> string" where
  "join_space [] = []"
| "join_space [p] = p"
| "join_space (p # q # ps) = p @ '' '' @ join_space (q # ps)"

section \<open>ConstraintEngine\<close>

definition ConstraintEngine_init :: ConstraintEngine where
  "ConstraintEngine_init = \<lparr>history = [], history_limit = 48\<rparr>"

definition classification_score :: "string \<Rightarrow> real" where
  "classification_score classification0 =
     (let classification = upper classification0
      in if str_in ''CATEGORY 5'' classification \<or> str_in ''CAT 5'' classification then 0.95
         else if str_in ''CATEGORY 4'' classification \<or> str_in ''CAT 4'' classification then 0.90
         else if str_in ''CATEGORY 3'' classification \<or> str_in ''CAT 3'' classification
                 \<or> str_in ''MAJOR'' classification then 0.85
         else if str_in ''CATEGORY 2'' classification \<or> str_in ''CAT 2'' classification then 0.75
         else if str_in ''CATEGORY 1'' classification \<or> str_in ''CAT 1'' classification then 0.70
         else if str_in ''HURRICANE'' classification then 0.70
         else if str_in ''TROPICAL STORM'' classification \<or> str_in ''TS'' classification then 0.55
         else if str_in ''TROPICAL DEPRESSION'' classification \<or> str_in ''TD'' classification
              then 0.35
         else if str_in ''POST-TROPICAL'' classification \<or> str_in ''REMNANT'' classification
              then 0.15
         else 0.50)"

definition assess_refusal_risk :: "real \<Rightarrow> real \<Rightarrow> real \<Rightarrow> string" where
  "assess_refusal_risk L S dS_dt =
     (if L < 0.15 \<or> (S < 0.25 \<and> dS_dt < - 0.05) then ''CRITICAL''
      else if L < 0.25 \<or> (S < 0.40 \<and> dS_dt < - 0.03) then ''HIGH''
      else if L < 0.40 then ''MODERATE''
      else ''LOW'')"

text \<open>
  \<^verbatim>\<open>_identify_regime\<close>: the first rule is a nested \<^verbatim>\<open>if\<close> that falls through to the
  other rules when its inner test fails; \<open>identify_regime_rest\<close> is the code after it.
\<close>

definition identify_regime_rest :: "real \<Rightarrow> real \<Rightarrow> real \<Rightarrow> real \<Rightarrow> real \<Rightarrow> real \<Rightarrow> string" where
  "identify_regime_rest I R S dI_dt dR_dt dS_dt =
     (if I < 0.35 \<and> S > 0.60 then ''PEAK_LIMITED''
      else if S < 0.35 \<or> (dS_dt < - 0.05 \<and> S < 0.50) then ''COLLAPSE''
      else if (dI_dt < - 0.02 \<and> dR_dt < - 0.02) \<or> dS_dt < - 0.03 then ''DECAY''
      else ''STABLE'')"

definition identify_regime :: "real \<Rightarrow> real \<Rightarrow> real \<Rightarrow> real \<Rightarrow> real \<Rightarrow> real \<Rightarrow> string" where
  "identify_regime I R S dI_dt dR_dt dS_dt =
     (if I > 0.65 \<and> R > 0.70 \<and> S > 0.60
      then (if dI_dt > 0.01 \<or> dS_dt > 0.01 then ''RI_CANDIDATE''
            else identify_regime_rest I R S dI_dt dR_dt dS_dt)
      else identify_regime_rest I R S dI_dt dR_dt dS_dt)"

definition generate_summary :: "real \<Rightarrow> real \<Rightarrow> real \<Rightarrow> string \<Rightarrow> string" where
  "generate_summary I R S regime =
     (let headroom =
            (if I > 0.70 then ''high thermodynamic headroom''
             else if I > 0.45 then ''moderate headroom''
             else if I > 0.25 then ''low headroom, near ceiling''
             else ''very limited headroom'');
          env_desc =
            (if R > 0.75 then ''highly favorable environment''
             else if R > 0.55 then ''moderately favorable environment''
             else ''marginal environment'');
          struct =
            (if S > 0.80 then ''well-organized structure''
             else if S > 0.60 then ''moderately organized''
             else if S > 0.40 then ''showing structural stress''
             else ''poorly organized'')
      in capitalize headroom @ '', '' @ env_desc @ '', '' @ struct @ ''. Regime: '' @ regime)"

text \<open>
  The three raw indices of \<^verbatim>\<open>calculate_constraints\<close> (its locals \<^verbatim>\<open>I_raw\<close>,
  \<^verbatim>\<open>R_raw\<close>, \<^verbatim>\<open>S_raw\<close> after clamping). Only the headroom ratio divides by an input.
\<close>

definition I_raw :: "NHCAdvisory \<Rightarrow> EnvironmentalData \<Rightarrow> error + real" where
  "I_raw nhc env =
     (if env_potential_intensity env = 0 then Inl ZeroDivisionError
      else Inr (max 0.05 (min 0.95
             (1.0 - nhc_current_intensity nhc / env_potential_intensity env))))"

definition R_raw :: "EnvironmentalData \<Rightarrow> real" where
  "R_raw env =
     (let shear_factor = max 0 (1.0 - env_wind_shear env / 35.0);
          sst_factor = max 0 (min 1.0 ((env_sst env - 24.0) / 6.0));
          lat_factor = max 0 (1.0 - \<bar>env_latitude env - 22\<bar> / 25)
      in max 0.1 (min 0.95 (0.5 * shear_factor + 0.3 * sst_factor + 0.2 * lat_factor)))"

text \<open>
  \<^verbatim>\<open>if nhc.current_pressure:\<close> is false for \<^verbatim>\<open>None\<close> and for \<^verbatim>\<open>0.0\<close>.
\<close>

definition pressure_score :: "NHCAdvisory \<Rightarrow> real" where
  "pressure_score nhc =
     (case nhc_current_pressure nhc of
        None \<Rightarrow> 0.5
      | Some p \<Rightarrow>
          if p = 0 then 0.5
          else (let expected_pressure = 1015 - nhc_current_intensity nhc * 0.65;
                    deviation = \<bar>p - expected_pressure\<bar>
                in max 0 (1.0 - deviation / 30.0)))"

definition S_raw :: "NHCAdvisory \<Rightarrow> EnvironmentalData \<Rightarrow> real" where
  "S_raw nhc env =
     (let class_score = classification_score (nhc_classification nhc);
          shear_impact = max 0 (1.0 - env_wind_shear env / 40.0)
      in max 0.05 (min 0.95
           (0.4 * class_score + 0.3 * pressure_score nhc + 0.3 * shear_impact)))"

text \<open>
  \<^verbatim>\<open>calculate_constraints\<close>. \<^verbatim>\<open>prev\<close> is the last state of the history, if any
  (a dataclass instance is always true). The new state is appended and the oldest
  one popped when the history is longer than the limit. An exception leaves the
  engine as it was.
\<close>

definition calculate_constraints ::
  "ConstraintEngine \<Rightarrow> NHCAdvisory \<Rightarrow> EnvironmentalData
     \<Rightarrow> error + (ConstraintState \<times> ConstraintEngine)" where
  "calculate_constraints self nhc env =
     (let prev = (if history self = [] then None else Some (last (history self)))
      in case I_raw nhc env of
           Inl e \<Rightarrow> Inl e
         | Inr I_raw' \<Rightarrow>
            (let I = (case prev of Some p \<Rightarrow> 0.7 * I_raw' + 0.3 * cs_I p | None \<Rightarrow> I_raw');
                 R_raw' = R_raw env;
                 R = (case prev of Some p \<Rightarrow> 0.7 * R_raw' + 0.3 * cs_R p | None \<Rightarrow> R_raw');
                 S_raw' = S_raw nhc env;
                 S = (case prev of Some p \<Rightarrow> 0.8 * S_raw' + 0.2 * cs_S p | None \<Rightarrow> S_raw');
                 L = I * R * S;
                 (dI_dt, dR_dt, dS_dt, dL_dt) =
                   (case prev of
                      None \<Rightarrow> (0, 0, 0, 0)
                    | Some p \<Rightarrow>
                        (let dt = (nhc_advisory_time nhc - cs_timestamp p) / 3600
                         in if dt > 0
                            then ((I - cs_I p) / dt, (R - cs_R p) / dt,
                                  (S - cs_S p) / dt, (L - cs_L p) / dt)
                            else (0, 0, 0, 0)));
                 gradient_hazard = (dL_dt < - 0.02);
                 refusal_risk = assess_refusal_risk L S dS_dt;
                 regime = identify_regime I R S dI_dt dR_dt dS_dt;
                 nhc_forecast_change = 0.0;
                 constraint_summary = generate_summary I R S regime;
                 state = \<lparr>cs_timestamp = nhc_advisory_time nhc,
                          cs_storm_name = nhc_storm_name nhc,
                          cs_I = I, cs_R = R, cs_S = S, cs_L = L,
                          cs_dI_dt = dI_dt, cs_dR_dt = dR_dt,
                          cs_dS_dt = dS_dt, cs_dL_dt = dL_dt,
                          cs_gradient_hazard = gradient_hazard,
                          cs_refusal_risk = refusal_risk,
                          cs_regime = regime,
                          cs_current_intensity = nhc_current_intensity nhc,
                          cs_nhc_forecast_change = nhc_forecast_change,
                          cs_constraint_summary = constraint_summary\<rparr>;
                 appended = history self @ [state];
                 history' = (if length appended > history_limit self
                             then tl appended else appended)
             in Inr (state, self\<lparr>history := history'\<rparr>)))"

text \<open>
  Processing a sequence of advisories with one engine, as the historical replay of
  \<^verbatim>\<open>test_historical.py\<close> does: the states produced, in order, and the final engine.
  The first exception ends the run.
\<close>

fun run_engine ::
  "ConstraintEngine \<Rightarrow> (NHCAdvisory \<times> EnvironmentalData) list
     \<Rightarrow> error + (ConstraintState list \<times> ConstraintEngine)" where
  "run_engine self [] = Inr ([], self)"
| "run_engine self ((nhc, env) # rest) =
     (case calculate_constraints self nhc env of
        Inl e \<Rightarrow> Inl e
      | Inr (state, self') \<Rightarrow>
          (case run_engine self' rest of
             Inl e \<Rightarrow> Inl e
           | Inr (states, self'') \<Rightarrow> Inr (state # states, self'')))"

section \<open>InsightGenerator\<close>

text \<open>
  \<^verbatim>\<open>_summarize_nhc\<close> formats the intensity, the pressure and the speed with
  \<^verbatim>\<open>:.0f\<close>. The pressure is an \<^verbatim>\<open>Optional[float]\<close> and is formatted without a test.
\<close>

definition summarize_nhc :: "(real \<Rightarrow> string) \<Rightarrow> NHCAdvisory \<Rightarrow> error + string" where
  "summarize_nhc fmt nhc =
     (case nhc_current_pressure nhc of
        None \<Rightarrow> Inl TypeError
      | Some p \<Rightarrow>
          Inr (nhc_classification nhc @ '' with '' @ fmt (nhc_current_intensity nhc)
               @ '' kt winds ('' @ fmt p @ '' mb), moving '' @ nhc_movement_direction nhc
               @ '' at '' @ fmt (nhc_movement_speed nhc) @ '' kt.''))"

definition generate_comparative_insight ::
  "(real \<Rightarrow> string) \<Rightarrow> NHCAdvisory \<Rightarrow> ConstraintState \<Rightarrow> EnvironmentalData
     \<Rightarrow> error + string" where
  "generate_comparative_insight fmt nhc constraints env =
     (if env_potential_intensity env = 0 then Inl ZeroDivisionError
      else
        (let ceiling_pct = nhc_current_intensity nhc / env_potential_intensity env * 100;
             insights1 =
               (if ceiling_pct > 85
                then [''Storm at '' @ fmt ceiling_pct @ ''% of thermodynamic ceiling (PI=''
                      @ fmt (env_potential_intensity env) @ '' kt) - limited upside potential.'']
                else if ceiling_pct < 60 \<and> cs_I constraints > 0.60
                then [''Storm at '' @ fmt ceiling_pct
                      @ ''% of ceiling with high headroom - significant intensification possible.'']
                else []);
             insights2 = insights1 @
               (if cs_S constraints < 0.40 \<and> nhc_current_intensity nhc > 80
                then [''Structural coherence weak despite current intensity - may indicate instability.'']
                else if cs_S constraints > 0.80 \<and> cs_dS_dt constraints > 0
                then [''Structure strengthening - supports continued intensification.'']
                else []);
             insights3 = insights2 @
               (if cs_regime constraints = ''RI_CANDIDATE''
                then [''All constraints aligned for rapid intensification within 24 hours.'']
                else if cs_regime constraints = ''PEAK_LIMITED''
                then [''Approaching thermodynamic limits - peak intensity likely within 12-24 hours.'']
                else if cs_regime constraints = ''COLLAPSE''
                then [''Structural collapse underway - expect abrupt weakening.'']
                else []);
             insights4 = insights3 @
               (if cs_gradient_hazard constraints
                then [''Admissibility declining - storm moving into less favorable constraint space.'']
                else []);
             insights5 =
               (if insights4 = []
                then [''Constraint analysis aligns with current NHC assessment.'']
                else insights4)
         in Inr (join_space insights5)))"

definition generate_forecast_implication :: "NHCAdvisory \<Rightarrow> ConstraintState \<Rightarrow> string" where
  "generate_forecast_implication nhc constraints =
     (let implications1 =
            (if cs_I constraints < 0.25
             then [''Limited intensification potential beyond current state.'']
             else if cs_I constraints > 0.65 \<and> cs_R constraints > 0.70
             then [''Ample headroom for strengthening if other factors align.'']
             else []);
          implications2 = implications1 @
            (if cs_S constraints < 0.35 \<and> cs_dS_dt constraints < - 0.03
             then [''Structural deterioration suggests faster weakening than typical.'']
             else []);
          implications3 = implications2 @
            (if cs_regime constraints = ''RI_CANDIDATE''
             then [''Rapid intensification (35+ kt in 24h) is possible.'']
             else if cs_regime constraints = ''PEAK_LIMITED''
             then [''Peak intensity likely near current levels.'']
             else []);
          implications4 =
            (if implications3 = []
             then [''No strong constraint-based deviations from standard forecast expected.'']
             else implications3)
      in join_space implications4)"

definition calculate_confidence :: "ConstraintState \<Rightarrow> real" where
  "calculate_confidence constraints =
     (let confidence0 = 0.6;
          confidence1 =
            (if cs_regime constraints \<in> set [''RI_CANDIDATE'', ''PEAK_LIMITED'', ''COLLAPSE'']
             then confidence0 + 0.15 else confidence0);
          confidence2 =
            (if \<bar>cs_dL_dt constraints\<bar> > 0.03 then confidence1 + 0.10 else confidence1);
          confidence3 =
            (if 0.4 < cs_L constraints \<and> cs_L constraints < 0.6
             then confidence2 - 0.10 else confidence2)
      in max 0.4 (min 0.95 confidence3))"

definition estimate_time_to_peak :: "ConstraintState \<Rightarrow> EnvironmentalData \<Rightarrow> string option" where
  "estimate_time_to_peak constraints env =
     (if cs_regime constraints = ''PEAK_LIMITED'' then Some ''within 12-24 hours''
      else if cs_I constraints < 0.30 then Some ''at or near peak now''
      else if cs_regime constraints = ''RI_CANDIDATE'' then Some ''24-48 hours (if RI occurs)''
      else None)"

definition assess_structural_trend :: "ConstraintState \<Rightarrow> string" where
  "assess_structural_trend constraints =
     (if cs_dS_dt constraints > 0.02 then ''strengthening''
      else if cs_dS_dt constraints < - 0.02 then ''deteriorating''
      else ''stable'')"

text \<open>
  \<^verbatim>\<open>generate_insight\<close> calls the helpers in the order of the source; the first
  exception is the result.
\<close>

definition generate_insight ::
  "(real \<Rightarrow> string) \<Rightarrow> NHCAdvisory \<Rightarrow> ConstraintState \<Rightarrow> EnvironmentalData
     \<Rightarrow> error + DiagnosticInsight" where
  "generate_insight fmt nhc constraints env =
     (case summarize_nhc fmt nhc of
        Inl e \<Rightarrow> Inl e
      | Inr nhc_summary \<Rightarrow>
         (case generate_comparative_insight fmt nhc constraints env of
            Inl e \<Rightarrow> Inl e
          | Inr comparative \<Rightarrow>
             (let implication = generate_forecast_implication nhc constraints;
                  confidence = calculate_confidence constraints
              in if env_potential_intensity env = 0 then Inl ZeroDivisionError
                 else
                   (let ceiling_pct =
                          nhc_current_intensity nhc / env_potential_intensity env * 100;
                        time_to_peak = estimate_time_to_peak constraints env;
                        structural_trend = assess_structural_trend constraints
                    in Inr \<lparr>di_timestamp = nhc_advisory_time nhc,
                            di_storm_name = nhc_storm_name nhc,
                            di_nhc_summary = nhc_summary,
                            di_constraint_summary = cs_constraint_summary constraints,
                            di_comparative_insight = comparative,
                            di_forecast_implication = implication,
                            di_confidence = confidence,
                            di_thermodynamic_ceiling_pct = ceiling_pct,
                            di_time_to_peak_estimate = time_to_peak,
                            di_structural_trend = structural_trend\<rparr>))))"

section \<open>HurricaneConstraintSystem\<close>

text \<open>
  \<^verbatim>\<open>get_constraint_history\<close> reads the history of the engine of the system: all of it
  when no storm name (or an empty one) is given, else the states of that storm.
\<close>

definition get_constraint_history :: "ConstraintEngine \<Rightarrow> string option \<Rightarrow> ConstraintState list" where
  "get_constraint_history constraint_engine storm_name =
     (case storm_name of
        None \<Rightarrow> history constraint_engine
      | Some name \<Rightarrow>
          if name = [] then history constraint_engine
          else filter (\<lambda>s. cs_storm_name s = name) (history constraint_engine))"

section \<open>Specification-side definitions\<close>

text \<open>
  The rule list of the regime in the order the specification gives it, first match
  winning; to be compared with \<^const>\<open>identify_regime\<close>.
\<close>

definition regime_spec :: "real \<Rightarrow> real \<Rightarrow> real \<Rightarrow> real \<Rightarrow> real \<Rightarrow> real \<Rightarrow> string" where
  "regime_spec I R S dI_dt dR_dt dS_dt =
     (if I > 0.65 \<and> R > 0.70 \<and> S > 0.60 \<and> (dI_dt > 0.01 \<or> dS_dt > 0.01) then ''RI_CANDIDATE''
      else if I < 0.35 \<and> S > 0.60 then ''PEAK_LIMITED''
      else if S < 0.35 \<or> (dS_dt < - 0.05 \<and> S < 0.50) then ''COLLAPSE''
      else if (dI_dt < - 0.02 \<and> dR_dt < - 0.02) \<or> dS_dt < - 0.03 then ''DECAY''
      else ''STABLE'')"

text \<open>
  The order LOW < MODERATE < HIGH < CRITICAL of the risk levels.
\<close>

definition risk_rank :: "string \<Rightarrow> nat" where
  "risk_rank r =
     (if r = ''CRITICAL'' then 3 else if r = ''HIGH'' then 2
      else if r = ''MODERATE'' then 1 else 0)"

text \<open>
  The confidence as the specification words it: the clamp of the base value and three
  independent adjustments.
\<close>

definition confidence_spec :: "ConstraintState \<Rightarrow> real" where
  "confidence_spec c =
     max 0.4 (min 0.95
       (0.6
        + (if cs_regime c = ''RI_CANDIDATE'' \<or> cs_regime c = ''PEAK_LIMITED''
              \<or> cs_regime c = ''COLLAPSE'' then 0.15 else 0)
        + (if \<bar>cs_dL_dt c\<bar> > 0.03 then 0.10 else 0)
        - (if 0.4 < cs_L c \<and> cs_L c < 0.6 then 0.10 else 0)))"

text \<open>
  The lookup of the classification score as an ordered table of keys and scores, the
  first entry with a key occurring in the label giving the score.
\<close>

definition classification_table :: "(string list \<times> real) list" where
  "classification_table =
     [([''CATEGORY 5'', ''CAT 5''], 0.95),
      ([''CATEGORY 4'', ''CAT 4''], 0.90),
      ([''CATEGORY 3'', ''CAT 3'', ''MAJOR''], 0.85),
      ([''CATEGORY 2'', ''CAT 2''], 0.75),
      ([''CATEGORY 1'', ''CAT 1''], 0.70),
      ([''HURRICANE''], 0.70),
      ([''TROPICAL STORM'', ''TS''], 0.55),
      ([''TROPICAL DEPRESSION'', ''TD''], 0.35),
      ([''POST-TROPICAL'', ''REMNANT''], 0.15)]"

definition entry_matches :: "string \<Rightarrow> string list \<times> real \<Rightarrow> bool" where
  "entry_matches s entry = list_ex (\<lambda>k. str_in k s) (fst entry)"

fun first_match :: "(string list \<times> real) list \<Rightarrow> string \<Rightarrow> real" where
  "first_match [] s = 0.50"
| "first_match (entry # rest) s =
     (if entry_matches s entry then snd entry else first_match rest s)"

text \<open>
  The ranges of the indices of a state, and the admissibility as their product.
\<close>

definition state_in_bounds :: "ConstraintState \<Rightarrow> bool" where
  "state_in_bounds st \<longleftrightarrow>
     0.05 \<le> cs_I st \<and> cs_I st \<le> 0.95
     \<and> 0.1 \<le> cs_R st \<and> cs_R st \<le> 0.95
     \<and> 0.05 \<le> cs_S st \<and> cs_S st \<le> 0.95
     \<and> cs_L st = cs_I st * cs_R st * cs_S st
     \<and> 0.05 ^ 3 \<le> cs_L st \<and> cs_L st \<le> 0.95 ^ 3"

text \<open>
  A valid input of the specification: positive potential intensity, non-negative
  intensity, pressure (when present) and wind shear.
\<close>

definition valid_input :: "NHCAdvisory \<times> EnvironmentalData \<Rightarrow> bool" where
  "valid_input inp \<longleftrightarrow>
     env_potential_intensity (snd inp) > 0
     \<and> nhc_current_intensity (fst inp) \<ge> 0
     \<and> (case nhc_current_pressure (fst inp) of None \<Rightarrow> True | Some p \<Rightarrow> p \<ge> 0)
     \<and> env_wind_shear (snd inp) \<ge> 0"

text \<open>
  The elapsed hours between an advisory and a previous state (the local \<^verbatim>\<open>dt\<close>).
\<close>

definition elapsed_hours :: "NHCAdvisory \<Rightarrow> ConstraintState \<Rightarrow> real" where
  "elapsed_hours nhc prev = (nhc_advisory_time nhc - cs_timestamp prev) / 3600"

subsection \<open>Concrete inputs\<close>

text \<open>
  The first two points of the replay of hurricane Ian in \<^verbatim>\<open>test_historical.py\<close>,
  twelve hours apart, in the environment of the end-to-end scenario of the
  specification; the state and the engine after the first call on a new engine.
\<close>

definition ian_advisory :: NHCAdvisory where
  "ian_advisory =
     \<lparr>nhc_storm_id = ''test_ian'', nhc_storm_name = ''Ian'', nhc_advisory_number = 0,
      nhc_advisory_time = 0, nhc_classification = ''TROPICAL STORM'',
      nhc_current_intensity = 45, nhc_current_pressure = Some 998,
      nhc_latitude = 17.8, nhc_longitude = - 79.8,
      nhc_movement_direction = ''NW'', nhc_movement_speed = 12,
      nhc_forecast_positions = []\<rparr>"

definition ian_advisory_12h :: NHCAdvisory where
  "ian_advisory_12h =
     ian_advisory\<lparr>nhc_advisory_time := 43200, nhc_classification := ''HURRICANE'',
                  nhc_current_intensity := 75, nhc_current_pressure := Some 986,
                  nhc_latitude := 18.5, nhc_longitude := - 81.5\<rparr>"

definition ian_environment :: EnvironmentalData where
  "ian_environment =
     \<lparr>env_sst = 29, env_wind_shear = 10, env_potential_intensity = 150,
      env_latitude = 18, env_source = ''estimated_climatology''\<rparr>"


definition ian_state :: ConstraintState where
  "ian_state =
     \<lparr>cs_timestamp = 0, cs_storm_name = ''Ian'',
      cs_I = 7 / 10, cs_R = 2713 / 3500, cs_S = 249 / 400, cs_L = 675537 / 2000000,
      cs_dI_dt = 0, cs_dR_dt = 0, cs_dS_dt = 0, cs_dL_dt = 0,
      cs_gradient_hazard = False, cs_refusal_risk = ''MODERATE'', cs_regime = ''STABLE'',
      cs_current_intensity = 45, cs_nhc_forecast_change = 0,
      cs_constraint_summary =
        ''Moderate headroom, highly favorable environment, moderately organized. Regime: STABLE''\<rparr>"

definition ian_engine :: ConstraintEngine where
  "ian_engine = \<lparr>history = [ian_state], history_limit = 48\<rparr>"

text \<open>
  A storm at its potential intensity in an unfavourable environment, twice, six hours
  apart: a valid run whose raw headroom and raw favourability are clamped to their
  floors 0.05 and 0.1.
\<close>

definition floor_advisory :: NHCAdvisory where
  "floor_advisory =
     ian_advisory\<lparr>nhc_classification := ''HURRICANE'', nhc_current_intensity := 150,
                  nhc_current_pressure := Some 920, nhc_latitude := 50\<rparr>"

definition floor_environment :: EnvironmentalData where
  "floor_environment =
     \<lparr>env_sst = 24, env_wind_shear = 40, env_potential_intensity = 150,
      env_latitude = 50, env_source = ''estimated_climatology''\<rparr>"

definition floor_run :: "(NHCAdvisory \<times> EnvironmentalData) list" where
  "floor_run =
     [(floor_advisory, floor_environment),
      (floor_advisory\<lparr>nhc_advisory_time := 21600\<rparr>, floor_environment)]"

text \<open>
  The advisory repeated every six hours, for runs longer than the history limit.
\<close>

definition six_hourly :: "nat \<Rightarrow> (NHCAdvisory \<times> EnvironmentalData) list" where
  "six_hourly n =
     map (\<lambda>k. (ian_advisory\<lparr>nhc_advisory_time := 21600 * real k\<rparr>, ian_environment)) [0..<n]"

section \<open>Properties of a single call\<close>

lemma calculate_constraints_Inl:
  assumes "I_raw nhc env = Inl e"
  shows "calculate_constraints self nhc env = Inl e"
  using assms by (simp add: calculate_constraints_def Let_def)

text \<open>
  The fields of the state of a successful call, and the new history.
\<close>

lemma calculate_constraints_Inr:
  assumes "I_raw nhc env = Inr raw"
  shows "\<exists>st. calculate_constraints self nhc env
            = Inr (st, self\<lparr>history :=
                      (if length (history self @ [st]) > history_limit self
                       then tl (history self @ [st]) else history self @ [st])\<rparr>)
          \<and> cs_timestamp st = nhc_advisory_time nhc
          \<and> cs_I st = (if history self = [] then raw
                       else 0.7 * raw + 0.3 * cs_I (last (history self)))
          \<and> cs_R st = (if history self = [] then R_raw env
                       else 0.7 * R_raw env + 0.3 * cs_R (last (history self)))
          \<and> cs_S st = (if history self = [] then S_raw nhc env
                       else 0.8 * S_raw nhc env + 0.2 * cs_S (last (history self)))
          \<and> cs_L st = cs_I st * cs_R st * cs_S st
          \<and> (cs_dI_dt st, cs_dR_dt st, cs_dS_dt st, cs_dL_dt st) =
              (if history self \<noteq> []
                  \<and> (nhc_advisory_time nhc - cs_timestamp (last (history self))) / 3600 > 0
               then ((cs_I st - cs_I (last (history self)))
                       / ((nhc_advisory_time nhc - cs_timestamp (last (history self))) / 3600),
                     (cs_R st - cs_R (last (history self)))
                       / ((nhc_advisory_time nhc - cs_timestamp (last (history self))) / 3600),
                     (cs_S st - cs_S (last (history self)))
                       / ((nhc_advisory_time nhc - cs_timestamp (last (history self))) / 3600),
                     (cs_L st - cs_L (last (history self)))
                       / ((nhc_advisory_time nhc - cs_timestamp (last (history self))) / 3600))
               else (0, 0, 0, 0))"
proof (cases "history self = []")
  case True
  then show ?thesis using assms
    by (simp add: calculate_constraints_def Let_def)
next
  case False
  then show ?thesis using assms
    by (simp add: calculate_constraints_def Let_def)
qed


lemma calculate_constraints_history:
  assumes "calculate_constraints self nhc env = Inr (st, self')"
  shows "history self' = (if length (history self @ [st]) > history_limit self
                          then tl (history self @ [st]) else history self @ [st])
         \<and> history_limit self' = history_limit self"
proof (cases "I_raw nhc env")
  case (Inl e)
  from calculate_constraints_Inl [OF this, of self] assms show ?thesis by simp
next
  case (Inr raw)
  from calculate_constraints_Inr [OF this, of self] assms show ?thesis by auto
qed

lemma calculate_constraints_timestamp:
  assumes "calculate_constraints self nhc env = Inr (st, self')"
  shows "cs_timestamp st = nhc_advisory_time nhc"
proof (cases "I_raw nhc env")
  case (Inl e)
  from calculate_constraints_Inl [OF this, of self] assms show ?thesis by simp
next
  case (Inr raw)
  from calculate_constraints_Inr [OF this, of self] assms show ?thesis by auto
qed

lemma ian_first_call:
  "calculate_constraints ConstraintEngine_init ian_advisory ian_environment
     = Inr (ian_state, ian_engine)"
  by (simp add: calculate_constraints_def I_raw_def R_raw_def S_raw_def pressure_score_def
      classification_score_def upper_def ConstraintEngine_init_def ian_advisory_def
      ian_environment_def ian_state_def ian_engine_def Let_def
      assess_refusal_risk_def identify_regime_def identify_regime_rest_def generate_summary_def)

lemma ian_I_raw: "I_raw ian_advisory ian_environment = Inr 0.7"
  by (simp add: I_raw_def ian_advisory_def ian_environment_def)

lemma ian_12h_I_raw: "I_raw ian_advisory_12h ian_environment = Inr 0.5"
  by (simp add: I_raw_def ian_advisory_12h_def ian_advisory_def ian_environment_def)

section \<open>Failure on invalid input\<close>

text \<open>
  Claim C1 says that the engine fails with an InvalidInput condition when the potential
  intensity is at most 0, or the intensity or the pressure is negative. The code has
  no validation: with a negative potential intensity, a negative intensity or a
  negative pressure the call returns a state, the headroom being clamped to 0.95 and
  the pressure score to 0.
\<close>

theorem invalid_input_counterexample:
  "\<not> isl (calculate_constraints ConstraintEngine_init ian_advisory
             (ian_environment\<lparr>env_potential_intensity := - 150\<rparr>))
   \<and> cs_I (fst (projr (calculate_constraints ConstraintEngine_init ian_advisory
             (ian_environment\<lparr>env_potential_intensity := - 150\<rparr>)))) = 0.95
   \<and> \<not> isl (calculate_constraints ConstraintEngine_init
             (ian_advisory\<lparr>nhc_current_intensity := - 45\<rparr>) ian_environment)
   \<and> cs_I (fst (projr (calculate_constraints ConstraintEngine_init
             (ian_advisory\<lparr>nhc_current_intensity := - 45\<rparr>) ian_environment))) = 0.95
   \<and> \<not> isl (calculate_constraints ConstraintEngine_init
             (ian_advisory\<lparr>nhc_current_pressure := Some (- 998)\<rparr>) ian_environment)
   \<and> cs_S (fst (projr (calculate_constraints ConstraintEngine_init
             (ian_advisory\<lparr>nhc_current_pressure := Some (- 998)\<rparr>) ian_environment))) = 0.445"
  by (simp add: calculate_constraints_def I_raw_def R_raw_def S_raw_def pressure_score_def
      classification_score_def upper_def ConstraintEngine_init_def ian_advisory_def
      ian_environment_def Let_def)

text \<open>
  Claim C1 as amended: the call fails exactly when the potential intensity is 0, and
  then with the division by zero of the headroom ratio; every other input, valid or
  not, gives a state.
\<close>

theorem calculate_constraints_fails_iff:
  "(calculate_constraints self nhc env = Inl ZeroDivisionError
      \<longleftrightarrow> env_potential_intensity env = 0)
   \<and> (isl (calculate_constraints self nhc env) \<longleftrightarrow> env_potential_intensity env = 0)"
proof (cases "env_potential_intensity env = 0")
  case True
  then have "I_raw nhc env = Inl ZeroDivisionError" by (simp add: I_raw_def)
  from calculate_constraints_Inl [OF this] True show ?thesis by simp
next
  case False
  then obtain raw where "I_raw nhc env = Inr raw" by (simp add: I_raw_def)
  from calculate_constraints_Inr [OF this, of self] False show ?thesis by auto
qed


section \<open>Classification score\<close>

text \<open>
  Claim C3 says that a label containing POST-TROPICAL or REMNANT scores 0.15. The
  chain of tests is ordered, and a label that also contains the key of an earlier
  entry takes the score of that entry.
\<close>

theorem classification_score_counterexample:
  "str_in ''POST-TROPICAL'' (upper ''Post-Tropical Cyclone, formerly Hurricane Ian'')
   \<and> classification_score ''Post-Tropical Cyclone, formerly Hurricane Ian'' = 0.70
   \<and> classification_score ''Post-Tropical Cyclone, formerly Hurricane Ian'' \<noteq> 0.15"
  by (simp add: classification_score_def upper_def)

text \<open>
  Claim C3 as amended: the score is that of the first entry of the ordered table with
  a key occurring in the upper-cased label, 0.50 when there is none; a label
  containing POST-TROPICAL or REMNANT scores 0.15 when no key of an earlier entry
  occurs in it.
\<close>

theorem classification_score_first_match:
  "classification_score lbl = first_match classification_table (upper lbl)
   \<and> ((str_in ''POST-TROPICAL'' (upper lbl) \<or> str_in ''REMNANT'' (upper lbl))
        \<and> \<not> list_ex (entry_matches (upper lbl)) (butlast classification_table)
        \<longrightarrow> classification_score lbl = 0.15)
   \<and> (\<not> list_ex (entry_matches (upper lbl)) classification_table
        \<longrightarrow> classification_score lbl = 0.50)"
  by (simp add: classification_score_def classification_table_def entry_matches_def Let_def)

theorem classification_score_first_match_witness:
  "classification_score ''Post-Tropical Cyclone'' = 0.15
   \<and> classification_score ''Subtropical Cyclone'' = 0.50
   \<and> classification_score ''Major Hurricane'' = 0.85
   \<and> classification_score ''Remnants of Ian'' = 0.55"
  using classification_score_first_match [of "''Post-Tropical Cyclone''"]
        classification_score_first_match [of "''Subtropical Cyclone''"]
        classification_score_first_match [of "''Major Hurricane''"]
        classification_score_first_match [of "''Remnants of Ian''"]
  by (simp add: classification_table_def entry_matches_def upper_def)

section \<open>Regime\<close>

text \<open>
  Claim C4: the regime is one of the five labels, it is the first matching rule of the
  list of the specification, RI_CANDIDATE wins whenever its condition holds, and
  STABLE is returned exactly when no rule fires.
\<close>

theorem identify_regime_total_first_match:
  "identify_regime I R S dI_dt dR_dt dS_dt
     \<in> set [''RI_CANDIDATE'', ''PEAK_LIMITED'', ''COLLAPSE'', ''DECAY'', ''STABLE'']
   \<and> identify_regime I R S dI_dt dR_dt dS_dt = regime_spec I R S dI_dt dR_dt dS_dt
   \<and> (I > 0.65 \<and> R > 0.70 \<and> S > 0.60 \<and> (dI_dt > 0.01 \<or> dS_dt > 0.01)
        \<longrightarrow> identify_regime I R S dI_dt dR_dt dS_dt = ''RI_CANDIDATE'')
   \<and> (identify_regime I R S dI_dt dR_dt dS_dt = ''STABLE'' \<longleftrightarrow>
        \<not> (I > 0.65 \<and> R > 0.70 \<and> S > 0.60 \<and> (dI_dt > 0.01 \<or> dS_dt > 0.01))
        \<and> \<not> (I < 0.35 \<and> S > 0.60)
        \<and> \<not> (S < 0.35 \<or> (dS_dt < - 0.05 \<and> S < 0.50))
        \<and> \<not> ((dI_dt < - 0.02 \<and> dR_dt < - 0.02) \<or> dS_dt < - 0.03))"
proof -
  have eq: "identify_regime I R S dI_dt dR_dt dS_dt = regime_spec I R S dI_dt dR_dt dS_dt"
    by (simp add: identify_regime_def identify_regime_rest_def regime_spec_def)
  have mem: "regime_spec I R S dI_dt dR_dt dS_dt
     \<in> set [''RI_CANDIDATE'', ''PEAK_LIMITED'', ''COLLAPSE'', ''DECAY'', ''STABLE'']"
    by (simp add: regime_spec_def)
  have ri: "I > 0.65 \<and> R > 0.70 \<and> S > 0.60 \<and> (dI_dt > 0.01 \<or> dS_dt > 0.01)
        \<longrightarrow> regime_spec I R S dI_dt dR_dt dS_dt = ''RI_CANDIDATE''"
    by (simp add: regime_spec_def)
  have st: "regime_spec I R S dI_dt dR_dt dS_dt = ''STABLE'' \<longleftrightarrow>
        \<not> (I > 0.65 \<and> R > 0.70 \<and> S > 0.60 \<and> (dI_dt > 0.01 \<or> dS_dt > 0.01))
        \<and> \<not> (I < 0.35 \<and> S > 0.60)
        \<and> \<not> (S < 0.35 \<or> (dS_dt < - 0.05 \<and> S < 0.50))
        \<and> \<not> ((dI_dt < - 0.02 \<and> dR_dt < - 0.02) \<or> dS_dt < - 0.03)"
    by (auto simp: regime_spec_def)
  show ?thesis using eq mem ri st by simp
qed

theorem identify_regime_total_first_match_witness:
  "identify_regime 0.7 0.8 0.7 0.02 0 (- 0.04) = ''RI_CANDIDATE''
   \<and> regime_spec 0.7 0.8 0.7 0.02 0 (- 0.04) = ''RI_CANDIDATE''
   \<and> identify_regime_rest 0.7 0.8 0.7 0.02 0 (- 0.04) = ''DECAY''
   \<and> identify_regime 0.5 0.5 0.5 0 0 0 = ''STABLE''"
  using identify_regime_total_first_match [of "0.7" "0.8" "0.7" "0.02" 0 "- 0.04"]
        identify_regime_total_first_match [of "0.5" "0.5" "0.5" 0 0 0]
  by (simp add: identify_regime_def identify_regime_rest_def regime_spec_def)

section \<open>Smoothing and rates\<close>

text \<open>
  Claim C5: with a previous state the stored indices are the convex combinations of
  the clamped raw values and the previous indices, with the weights 0.7/0.3 for I
  and R and 0.8/0.2 for S; without one they are the raw values and the four rates
  are 0.
\<close>

theorem smoothing_convex_combination:
  assumes "I_raw nhc env = Inr raw"
  shows "\<exists>st self'. calculate_constraints self nhc env = Inr (st, self')
     \<and> (history self \<noteq> [] \<longrightarrow>
           cs_I st = 0.7 * raw + 0.3 * cs_I (last (history self))
         \<and> cs_R st = 0.7 * R_raw env + 0.3 * cs_R (last (history self))
         \<and> cs_S st = 0.8 * S_raw nhc env + 0.2 * cs_S (last (history self)))
     \<and> (history self = [] \<longrightarrow>
           cs_I st = raw \<and> cs_R st = R_raw env \<and> cs_S st = S_raw nhc env
         \<and> cs_dI_dt st = 0 \<and> cs_dR_dt st = 0 \<and> cs_dS_dt st = 0 \<and> cs_dL_dt st = 0)"
proof -
  from calculate_constraints_Inr [OF assms, of self] obtain st self' where
    r: "calculate_constraints self nhc env = Inr (st, self')"
    and i: "cs_I st = (if history self = [] then raw
                       else 0.7 * raw + 0.3 * cs_I (last (history self)))"
    and rr: "cs_R st = (if history self = [] then R_raw env
                       else 0.7 * R_raw env + 0.3 * cs_R (last (history self)))"
    and s: "cs_S st = (if history self = [] then S_raw nhc env
                       else 0.8 * S_raw nhc env + 0.2 * cs_S (last (history self)))"
    and d: "(cs_dI_dt st, cs_dR_dt st, cs_dS_dt st, cs_dL_dt st) =
              (if history self \<noteq> []
                  \<and> (nhc_advisory_time nhc - cs_timestamp (last (history self))) / 3600 > 0
               then ((cs_I st - cs_I (last (history self)))
                       / ((nhc_advisory_time nhc - cs_timestamp (last (history self))) / 3600),
                     (cs_R st - cs_R (last (history self)))
                       / ((nhc_advisory_time nhc - cs_timestamp (last (history self))) / 3600),
                     (cs_S st - cs_S (last (history self)))
                       / ((nhc_advisory_time nhc - cs_timestamp (last (history self))) / 3600),
                     (cs_L st - cs_L (last (history self)))
                       / ((nhc_advisory_time nhc - cs_timestamp (last (history self))) / 3600))
               else (0, 0, 0, 0))"
    by blast
  from d have "history self = [] \<longrightarrow>
      cs_dI_dt st = 0 \<and> cs_dR_dt st = 0 \<and> cs_dS_dt st = 0 \<and> cs_dL_dt st = 0"
    by (simp split: if_splits)
  with r i rr s show ?thesis by auto
qed

theorem smoothing_convex_combination_witness:
  "I_raw ian_advisory ian_environment = Inr 0.7
   \<and> I_raw ian_advisory_12h ian_environment = Inr 0.5
   \<and> (\<exists>st self'. calculate_constraints ConstraintEngine_init ian_advisory ian_environment
                    = Inr (st, self')
         \<and> cs_I st = 0.7 \<and> cs_dI_dt st = 0 \<and> cs_dR_dt st = 0 \<and> cs_dS_dt st = 0
         \<and> cs_dL_dt st = 0)
   \<and> (\<exists>st self'. calculate_constraints ian_engine ian_advisory_12h ian_environment
                    = Inr (st, self')
         \<and> cs_I st = 0.7 * 0.5 + 0.3 * 0.7)"
proof -
  have h0: "history ConstraintEngine_init = []" by (simp add: ConstraintEngine_init_def)
  have h1: "history ian_engine \<noteq> []" "cs_I (last (history ian_engine)) = 0.7"
    by (simp_all add: ian_engine_def ian_state_def)
  from smoothing_convex_combination [OF ian_I_raw, of ConstraintEngine_init] h0
  have A: "\<exists>st self'. calculate_constraints ConstraintEngine_init ian_advisory ian_environment
                    = Inr (st, self')
         \<and> cs_I st = 0.7 \<and> cs_dI_dt st = 0 \<and> cs_dR_dt st = 0 \<and> cs_dS_dt st = 0
         \<and> cs_dL_dt st = 0"
    by auto
  from smoothing_convex_combination [OF ian_12h_I_raw, of ian_engine] h1
  have B: "\<exists>st self'. calculate_constraints ian_engine ian_advisory_12h ian_environment
                    = Inr (st, self')
         \<and> cs_I st = 0.7 * 0.5 + 0.3 * 0.7"
    by auto
  from A B ian_I_raw ian_12h_I_raw show ?thesis by blast
qed

text \<open>
  Claim C6: with a previous state and a positive elapsed time each rate is the
  difference of the new and the previous value over the elapsed hours; without a
  previous state, or with a non-positive elapsed time, the four rates are 0 and the
  call still returns a state.
\<close>

theorem rates_of_change:
  assumes "I_raw nhc env = Inr raw"
  shows "\<exists>st self'. calculate_constraints self nhc env = Inr (st, self')
     \<and> (history self \<noteq> [] \<and> elapsed_hours nhc (last (history self)) > 0 \<longrightarrow>
           cs_dI_dt st = (cs_I st - cs_I (last (history self)))
                           / elapsed_hours nhc (last (history self))
         \<and> cs_dR_dt st = (cs_R st - cs_R (last (history self)))
                           / elapsed_hours nhc (last (history self))
         \<and> cs_dS_dt st = (cs_S st - cs_S (last (history self)))
                           / elapsed_hours nhc (last (history self))
         \<and> cs_dL_dt st = (cs_L st - cs_L (last (history self)))
                           / elapsed_hours nhc (last (history self)))
     \<and> (history self = [] \<or> elapsed_hours nhc (last (history self)) \<le> 0 \<longrightarrow>
           cs_dI_dt st = 0 \<and> cs_dR_dt st = 0 \<and> cs_dS_dt st = 0 \<and> cs_dL_dt st = 0)"
proof -
  from calculate_constraints_Inr [OF assms, of self] obtain st self' where
    r: "calculate_constraints self nhc env = Inr (st, self')"
    and d: "(cs_dI_dt st, cs_dR_dt st, cs_dS_dt st, cs_dL_dt st) =
              (if history self \<noteq> []
                  \<and> (nhc_advisory_time nhc - cs_timestamp (last (history self))) / 3600 > 0
               then ((cs_I st - cs_I (last (history self)))
                       / ((nhc_advisory_time nhc - cs_timestamp (last (history self))) / 3600),
                     (cs_R st - cs_R (last (history self)))
                       / ((nhc_advisory_time nhc - cs_timestamp (last (history self))) / 3600),
                     (cs_S st - cs_S (last (history self)))
                       / ((nhc_advisory_time nhc - cs_timestamp (last (history self))) / 3600),
                     (cs_L st - cs_L (last (history self)))
                       / ((nhc_advisory_time nhc - cs_timestamp (last (history self))) / 3600))
               else (0, 0, 0, 0))"
    by blast
  have a: "history self \<noteq> [] \<and> elapsed_hours nhc (last (history self)) > 0 \<longrightarrow>
           cs_dI_dt st = (cs_I st - cs_I (last (history self)))
                           / elapsed_hours nhc (last (history self))
         \<and> cs_dR_dt st = (cs_R st - cs_R (last (history self)))
                           / elapsed_hours nhc (last (history self))
         \<and> cs_dS_dt st = (cs_S st - cs_S (last (history self)))
                           / elapsed_hours nhc (last (history self))
         \<and> cs_dL_dt st = (cs_L st - cs_L (last (history self)))
                           / elapsed_hours nhc (last (history self))"
    using d unfolding elapsed_hours_def by (auto split: if_splits)
  have b: "history self = [] \<or> elapsed_hours nhc (last (history self)) \<le> 0 \<longrightarrow>
           cs_dI_dt st = 0 \<and> cs_dR_dt st = 0 \<and> cs_dS_dt st = 0 \<and> cs_dL_dt st = 0"
    using d unfolding elapsed_hours_def by (auto split: if_splits)
  from r a b show ?thesis by blast
qed

theorem rates_of_change_witness:
  "elapsed_hours ian_advisory_12h ian_state = 12
   \<and> elapsed_hours ian_advisory ian_state = 0
   \<and> (\<exists>st self'. calculate_constraints ian_engine ian_advisory_12h ian_environment
                    = Inr (st, self')
         \<and> cs_dI_dt st = (cs_I st - 0.7) / 12 \<and> cs_dI_dt st < 0)
   \<and> (\<exists>st self'. calculate_constraints ian_engine ian_advisory ian_environment
                    = Inr (st, self')
         \<and> cs_dI_dt st = 0 \<and> cs_dR_dt st = 0 \<and> cs_dS_dt st = 0 \<and> cs_dL_dt st = 0)"
proof -
  have e1: "elapsed_hours ian_advisory_12h ian_state = 12"
    by (simp add: elapsed_hours_def ian_advisory_12h_def ian_advisory_def ian_state_def)
  have e2: "elapsed_hours ian_advisory ian_state = 0"
    by (simp add: elapsed_hours_def ian_advisory_def ian_state_def)
  have h: "history ian_engine = [ian_state]" by (simp add: ian_engine_def)
  have i: "cs_I ian_state = 0.7" by (simp add: ian_state_def)
  from rates_of_change [OF ian_12h_I_raw, of ian_engine] obtain st self' where
    r: "calculate_constraints ian_engine ian_advisory_12h ian_environment = Inr (st, self')"
    and d: "cs_dI_dt st = (cs_I st - 0.7) / 12"
    using e1 h i by auto
  from calculate_constraints_Inr [OF ian_12h_I_raw, of ian_engine] r h i
  have "cs_I st = 0.7 * 0.5 + 0.3 * 0.7" by auto
  with d have "cs_dI_dt st < 0" by simp
  with r d have A: "\<exists>st self'. calculate_constraints ian_engine ian_advisory_12h ian_environment
                    = Inr (st, self')
         \<and> cs_dI_dt st = (cs_I st - 0.7) / 12 \<and> cs_dI_dt st < 0" by blast
  from rates_of_change [OF ian_I_raw, of ian_engine] e2 h
  have B: "\<exists>st self'. calculate_constraints ian_engine ian_advisory ian_environment
                    = Inr (st, self')
         \<and> cs_dI_dt st = 0 \<and> cs_dR_dt st = 0 \<and> cs_dS_dt st = 0 \<and> cs_dL_dt st = 0"
    by auto
  from e1 e2 A B show ?thesis by blast
qed


section \<open>Risk level\<close>

text \<open>
  Claim C7: the risk level is one of LOW, MODERATE, HIGH, CRITICAL, and at fixed S and
  dS/dt it does not decrease in that order when L decreases.
\<close>

theorem refusal_risk_monotone:
  assumes "L1 \<le> L2"
  shows "risk_rank (assess_refusal_risk L2 S dS_dt) \<le> risk_rank (assess_refusal_risk L1 S dS_dt)
     \<and> assess_refusal_risk L1 S dS_dt \<in> set [''LOW'', ''MODERATE'', ''HIGH'', ''CRITICAL'']
     \<and> assess_refusal_risk L2 S dS_dt \<in> set [''LOW'', ''MODERATE'', ''HIGH'', ''CRITICAL'']"
proof -
  have "risk_rank (assess_refusal_risk L2 S dS_dt) \<le> risk_rank (assess_refusal_risk L1 S dS_dt)"
    using assms by (auto simp: assess_refusal_risk_def risk_rank_def)
  moreover have "assess_refusal_risk L S dS_dt \<in> set [''LOW'', ''MODERATE'', ''HIGH'', ''CRITICAL'']"
    for L by (simp add: assess_refusal_risk_def)
  ultimately show ?thesis by blast
qed

theorem refusal_risk_monotone_witness:
  "(0.2::real) \<le> 0.3
   \<and> assess_refusal_risk 0.3 0.5 0 = ''MODERATE'' \<and> assess_refusal_risk 0.2 0.5 0 = ''HIGH''
   \<and> risk_rank ''MODERATE'' \<le> risk_rank ''HIGH''"
  using refusal_risk_monotone [of "0.2" "0.3" "0.5" 0]
  by (simp add: assess_refusal_risk_def risk_rank_def)

section \<open>History\<close>

lemma drop_one_tl: "drop (Suc 0) xs = tl xs"
  by (cases xs) simp_all

lemma drop_window_append:
  "drop (length (drop (length xs - n) xs @ ys) - n) (drop (length xs - n) xs @ ys)
     = drop (length (xs @ ys) - n) (xs @ ys)"
proof (cases "length xs \<le> n")
  case True
  then show ?thesis by simp
next
  case False
  then have "length (drop (length xs - n) xs) = n" by simp
  then have "drop (length (drop (length xs - n) xs @ ys) - n) (drop (length xs - n) xs @ ys)
      = drop (length ys) (drop (length xs - n) xs @ ys)" by simp
  also have "\<dots> = drop (length ys) (drop (length xs - n) (xs @ ys))" by simp
  also have "\<dots> = drop (length ys + (length xs - n)) (xs @ ys)" by (simp only: drop_drop)
  also have "length ys + (length xs - n) = length (xs @ ys) - n" using False by simp
  finally show ?thesis .
qed

lemma calculate_constraints_window:
  assumes "calculate_constraints self nhc env = Inr (st, self')"
    and "length (history self) \<le> history_limit self"
  shows "history self' = drop (length (history self @ [st]) - history_limit self)
                           (history self @ [st])"
proof -
  from calculate_constraints_history [OF assms(1)]
  have h: "history self' = (if length (history self @ [st]) > history_limit self
                          then tl (history self @ [st]) else history self @ [st])" by simp
  show ?thesis
  proof (cases "length (history self @ [st]) > history_limit self")
    case True
    with assms(2) have "length (history self @ [st]) - history_limit self = Suc 0" by simp
    with h True show ?thesis by (simp only: drop_one_tl if_True)
  next
    case False
    with h show ?thesis by simp
  qed
qed

lemma run_engine_window:
  assumes "run_engine e inputs = Inr (states, self)"
    and "length (history e) \<le> history_limit e"
  shows "history self = drop (length (history e @ states) - history_limit e) (history e @ states)
         \<and> history_limit self = history_limit e \<and> length states = length inputs"
  using assms
proof (induction inputs arbitrary: e states)
  case Nil
  then show ?case by simp
next
  case (Cons inp inputs)
  obtain nhc env where inp: "inp = (nhc, env)" by (cases inp)
  from Cons.prems(1) inp obtain st e' states' where
    c: "calculate_constraints e nhc env = Inr (st, e')"
    and r: "run_engine e' inputs = Inr (states', self)"
    and s: "states = st # states'"
    by (auto split: sum.splits prod.splits)
  from calculate_constraints_window [OF c Cons.prems(2)]
  have h: "history e' = drop (length (history e @ [st]) - history_limit e) (history e @ [st])" .
  from calculate_constraints_history [OF c]
  have l: "history_limit e' = history_limit e" by simp
  from h l have le: "length (history e') \<le> history_limit e'" by simp
  from Cons.IH [OF r le] l
  have ih: "history self = drop (length (history e' @ states') - history_limit e)
                             (history e' @ states')"
    and lim: "history_limit self = history_limit e"
    and len: "length states' = length inputs" by simp_all
  have "drop (length (history e' @ states') - history_limit e) (history e' @ states')
      = drop (length ((history e @ [st]) @ states') - history_limit e)
          ((history e @ [st]) @ states')"
    unfolding h by (rule drop_window_append)
  with ih s lim len show ?case by simp
qed

lemma run_engine_total:
  assumes "list_all (\<lambda>inp. env_potential_intensity (snd inp) \<noteq> 0) inputs"
  shows "\<exists>states self. run_engine e inputs = Inr (states, self)"
  using assms
proof (induction inputs arbitrary: e)
  case Nil
  then show ?case by simp
next
  case (Cons inp inputs)
  obtain nhc env where inp: "inp = (nhc, env)" by (cases inp)
  with Cons.prems have "env_potential_intensity env \<noteq> 0" by simp
  then obtain raw where "I_raw nhc env = Inr raw" by (simp add: I_raw_def)
  from calculate_constraints_Inr [OF this, of e] obtain st e' where
    c: "calculate_constraints e nhc env = Inr (st, e')" by blast
  from Cons.prems have "list_all (\<lambda>inp. env_potential_intensity (snd inp) \<noteq> 0) inputs" by simp
  from Cons.IH [OF this, of e'] obtain states self where
    "run_engine e' inputs = Inr (states, self)" by blast
  with c inp show ?case by simp
qed

lemma run_engine_timestamps:
  assumes "run_engine e inputs = Inr (states, self)"
  shows "map cs_timestamp states = map (\<lambda>inp. nhc_advisory_time (fst inp)) inputs"
  using assms
proof (induction inputs arbitrary: e states)
  case Nil
  then show ?case by simp
next
  case (Cons inp inputs)
  obtain nhc env where inp: "inp = (nhc, env)" by (cases inp)
  from Cons.prems inp obtain st e' states' where
    c: "calculate_constraints e nhc env = Inr (st, e')"
    and r: "run_engine e' inputs = Inr (states', self)"
    and s: "states = st # states'"
    by (auto split: sum.splits prod.splits)
  from calculate_constraints_timestamp [OF c] Cons.IH [OF r] s inp show ?case by simp
qed

text \<open>
  Claim C8: after any run from a new engine the history, and what
  \<^verbatim>\<open>get_constraint_history\<close> returns, is the newest 48 states produced, in the order of
  their production, so never more than 48; after 49 states the first is gone (it is
  not in the history when the states differ); and a further successful call appends
  its state, dropping the oldest one when the history is full.
\<close>

theorem history_bounded_fifo:
  assumes "run_engine ConstraintEngine_init inputs = Inr (states, self)"
  shows "length states = length inputs
     \<and> length (history self) \<le> 48
     \<and> history self = drop (length states - 48) states
     \<and> get_constraint_history self None = drop (length states - 48) states
     \<and> (length states = 49 \<longrightarrow> history self = tl states)
     \<and> (length states = 49 \<and> distinct states \<longrightarrow> hd states \<notin> set (history self))
     \<and> (\<forall>nhc env st self'. calculate_constraints self nhc env = Inr (st, self') \<longrightarrow>
           history self' = (if length (history self) < 48 then history self @ [st]
                            else tl (history self) @ [st]))"
proof -
  have i: "length (history ConstraintEngine_init) \<le> history_limit ConstraintEngine_init"
    by (simp add: ConstraintEngine_init_def)
  from run_engine_window [OF assms i]
  have w: "history self = drop (length states - 48) states"
    and lim: "history_limit self = 48"
    and len: "length states = length inputs"
    by (simp_all add: ConstraintEngine_init_def)
  from w have le: "length (history self) \<le> 48" by simp
  from w have g: "get_constraint_history self None = drop (length states - 48) states"
    by (simp add: get_constraint_history_def)
  from w have t: "length states = 49 \<longrightarrow> history self = tl states"
    by (simp add: drop_one_tl)
  have d: "hd states \<notin> set (history self)" if "length states = 49 \<and> distinct states"
  proof -
    from that obtain x xs where x: "states = x # xs" by (cases states) auto
    with that t have "history self = xs" and "x \<notin> set xs" by auto
    with x show ?thesis by simp
  qed
  have step: "history self' = (if length (history self) < 48 then history self @ [st]
                            else tl (history self) @ [st])"
    if c: "calculate_constraints self nhc env = Inr (st, self')" for nhc env st self'
  proof -
    from calculate_constraints_history [OF c] lim
    have h: "history self' = (if length (history self @ [st]) > 48
                          then tl (history self @ [st]) else history self @ [st])" by simp
    show ?thesis
    proof (cases "length (history self) < 48")
      case True
      with h show ?thesis by simp
    next
      case False
      with le have "length (history self) = 48" by simp
      then have "history self \<noteq> []" by auto
      with h False show ?thesis by simp
    qed
  qed
  from len le w g t d step show ?thesis by blast
qed

theorem history_bounded_fifo_witness:
  "\<exists>states self st self'.
      run_engine ConstraintEngine_init (six_hourly 49) = Inr (states, self)
      \<and> length states = 49 \<and> distinct states
      \<and> history self = tl states \<and> length (history self) = 48
      \<and> hd states \<notin> set (history self)
      \<and> calculate_constraints self ian_advisory_12h ian_environment = Inr (st, self')
      \<and> history self' = tl (history self) @ [st]"
proof -
  have "list_all (\<lambda>inp. env_potential_intensity (snd inp) \<noteq> 0) (six_hourly 49)"
    by (simp add: list_all_iff six_hourly_def ian_environment_def)
  from run_engine_total [OF this, of ConstraintEngine_init] obtain states self where
    r: "run_engine ConstraintEngine_init (six_hourly 49) = Inr (states, self)" by blast
  note f = history_bounded_fifo [OF r]
  from f have n: "length states = 49" by (simp add: six_hourly_def)
  from f n have h: "history self = tl states" by blast
  have "map cs_timestamp states = map (\<lambda>k. 21600 * real k) [0..<49]"
    using run_engine_timestamps [OF r] by (simp add: six_hourly_def comp_def)
  moreover have "distinct (map (\<lambda>k. 21600 * real k) [0..<49])"
    by (simp add: distinct_map inj_on_def)
  ultimately have "distinct (map cs_timestamp states)" by simp
  then have d: "distinct states" by (simp add: distinct_map)
  from f n d have o: "hd states \<notin> set (history self)" by blast
  from h n have l: "length (history self) = 48" by simp
  obtain raw where "I_raw ian_advisory_12h ian_environment = Inr raw"
    using ian_12h_I_raw by blast
  from calculate_constraints_Inr [OF this, of self] obtain st self' where
    c: "calculate_constraints self ian_advisory_12h ian_environment = Inr (st, self')"
    by blast
  from f c l have "history self' = tl (history self) @ [st]" by auto
  with r n d h l o c show ?thesis by blast
qed

section \<open>Clamping of the raw indices\<close>

text \<open>
  Each raw index is the result of \<^verbatim>\<open>max(lo, min(hi, x))\<close> and lies in its range, whatever
  the inputs are.
\<close>

lemma clamp_bounds:
  fixes lo hi x :: real
  assumes "lo \<le> hi"
  shows "lo \<le> max lo (min hi x) \<and> max lo (min hi x) \<le> hi"
  using assms by auto

lemma I_raw_bounds:
  assumes "I_raw nhc env = Inr raw"
  shows "0.05 \<le> raw \<and> raw \<le> 0.95"
proof -
  from assms have "raw = max 0.05 (min 0.95
      (1.0 - nhc_current_intensity nhc / env_potential_intensity env))"
    by (auto simp: I_raw_def split: if_splits)
  then show ?thesis
    using clamp_bounds [of "0.05" "0.95"
        "1.0 - nhc_current_intensity nhc / env_potential_intensity env"]
    by (simp only:) simp
qed

lemma R_raw_bounds: "0.1 \<le> R_raw env \<and> R_raw env \<le> 0.95"
  unfolding R_raw_def Let_def by (rule clamp_bounds) simp

lemma S_raw_bounds: "0.05 \<le> S_raw nhc env \<and> S_raw nhc env \<le> 0.95"
  unfolding S_raw_def Let_def by (rule clamp_bounds) simp

section \<open>The smoothed indices in exact arithmetic\<close>

text \<open>
  The smoothing is applied to the clamped raw value and its result is stored without
  another clamp. In the exact arithmetic of the model a convex combination of two
  values of a range lies in the range, so that every state of a run of valid inputs
  has its indices in range and its admissibility between the cubes of 0.05 and 0.95.

  This is not a statement about the values the code stores (claim C2). The code
  evaluates the combination in binary64 and rounds: with a raw value and a previous
  value on the floor, \<^verbatim>\<open>0.7 * 0.05 + 0.3 * 0.05\<close> is \<^verbatim>\<open>0.049999999999999996\<close> and
  \<^verbatim>\<open>0.7 * 0.1 + 0.3 * 0.1\<close> is \<^verbatim>\<open>0.09999999999999999\<close>, below the floors 0.05 and 0.1.
  The run \<open>floor_run\<close> reaches that case: in exact arithmetic both of its states sit
  on the floors, with no margin for a rounding error.
\<close>

lemma convex_bounds:
  fixes a b w lo hi :: real
  assumes "lo \<le> a" "a \<le> hi" "lo \<le> b" "b \<le> hi" "0 \<le> w" "w \<le> 1"
  shows "lo \<le> w * a + (1 - w) * b \<and> w * a + (1 - w) * b \<le> hi"
proof -
  have "w * lo \<le> w * a" and "w * a \<le> w * hi"
    using assms by (simp_all add: mult_left_mono)
  moreover have "(1 - w) * lo \<le> (1 - w) * b" and "(1 - w) * b \<le> (1 - w) * hi"
    using assms by (simp_all add: mult_left_mono)
  moreover have "w * lo + (1 - w) * lo = lo" and "w * hi + (1 - w) * hi = hi"
    by (simp_all add: algebra_simps)
  ultimately show ?thesis by linarith
qed

lemma product_bounds:
  fixes i r s :: real
  assumes "0.05 \<le> i" "i \<le> 0.95" "0.1 \<le> r" "r \<le> 0.95" "0.05 \<le> s" "s \<le> 0.95"
  shows "0.05 ^ 3 \<le> i * r * s \<and> i * r * s \<le> 0.95 ^ 3"
proof -
  have "0.05 * 0.05 \<le> i * r"
    using assms by (intro mult_mono) simp_all
  then have "0.05 * 0.05 * 0.05 \<le> i * r * s"
    using assms by (intro mult_mono) simp_all
  moreover have "i * r \<le> 0.95 * 0.95"
    using assms by (intro mult_mono) simp_all
  then have "i * r * s \<le> 0.95 * 0.95 * 0.95"
    using assms by (intro mult_mono) simp_all
  ultimately show ?thesis by (simp add: power3_eq_cube)
qed

lemma step_in_bounds:
  assumes c: "calculate_constraints self nhc env = Inr (st, self')"
    and inv: "history self \<noteq> [] \<longrightarrow> state_in_bounds (last (history self))"
  shows "state_in_bounds st
         \<and> (history self' \<noteq> [] \<longrightarrow> state_in_bounds (last (history self')))"
proof -
  obtain raw where raw: "I_raw nhc env = Inr raw"
    using c calculate_constraints_Inl [of nhc env _ self] by (cases "I_raw nhc env") auto
  from calculate_constraints_Inr [OF raw, of self] c
  have i: "cs_I st = (if history self = [] then raw
                       else 0.7 * raw + 0.3 * cs_I (last (history self)))"
    and r: "cs_R st = (if history self = [] then R_raw env
                       else 0.7 * R_raw env + 0.3 * cs_R (last (history self)))"
    and s: "cs_S st = (if history self = [] then S_raw nhc env
                       else 0.8 * S_raw nhc env + 0.2 * cs_S (last (history self)))"
    and l: "cs_L st = cs_I st * cs_R st * cs_S st"
    by auto
  note rb = I_raw_bounds [OF raw] R_raw_bounds [of env] S_raw_bounds [of nhc env]
  have bi: "0.05 \<le> cs_I st \<and> cs_I st \<le> 0.95"
  proof (cases "history self = []")
    case True
    with i rb show ?thesis by simp
  next
    case False
    with inv have "0.05 \<le> cs_I (last (history self)) \<and> cs_I (last (history self)) \<le> 0.95"
      by (simp add: state_in_bounds_def)
    with rb convex_bounds [of "0.05" raw "0.95" "cs_I (last (history self))" "0.7"]
    show ?thesis using i False by simp
  qed
  have br: "0.1 \<le> cs_R st \<and> cs_R st \<le> 0.95"
  proof (cases "history self = []")
    case True
    with r rb show ?thesis by simp
  next
    case False
    with inv have "0.1 \<le> cs_R (last (history self)) \<and> cs_R (last (history self)) \<le> 0.95"
      by (simp add: state_in_bounds_def)
    with rb convex_bounds [of "0.1" "R_raw env" "0.95" "cs_R (last (history self))" "0.7"]
    show ?thesis using r False by simp
  qed
  have bs: "0.05 \<le> cs_S st \<and> cs_S st \<le> 0.95"
  proof (cases "history self = []")
    case True
    with s rb show ?thesis by simp
  next
    case False
    with inv have "0.05 \<le> cs_S (last (history self)) \<and> cs_S (last (history self)) \<le> 0.95"
      by (simp add: state_in_bounds_def)
    with rb convex_bounds [of "0.05" "S_raw nhc env" "0.95" "cs_S (last (history self))" "0.8"]
    show ?thesis using s False by simp
  qed
  from bi br bs product_bounds [of "cs_I st" "cs_R st" "cs_S st"] l
  have b: "state_in_bounds st" by (simp add: state_in_bounds_def)
  from calculate_constraints_history [OF c]
  have "history self' \<noteq> [] \<longrightarrow> last (history self') = st"
    by (cases "history self") (auto split: if_splits)
  with b show ?thesis by simp
qed

lemma run_in_bounds:
  assumes "list_all valid_input inputs"
    and "history e \<noteq> [] \<longrightarrow> state_in_bounds (last (history e))"
  shows "\<exists>states self. run_engine e inputs = Inr (states, self)
           \<and> length states = length inputs \<and> list_all state_in_bounds states"
  using assms
proof (induction inputs arbitrary: e)
  case Nil
  then show ?case by simp
next
  case (Cons inp inputs)
  obtain nhc env where inp: "inp = (nhc, env)" by (cases inp)
  with Cons.prems(1) have "env_potential_intensity env \<noteq> 0" by (simp add: valid_input_def)
  then obtain raw where "I_raw nhc env = Inr raw" by (simp add: I_raw_def)
  from calculate_constraints_Inr [OF this, of e] obtain st e' where
    c: "calculate_constraints e nhc env = Inr (st, e')" by blast
  from step_in_bounds [OF c Cons.prems(2)]
  have b: "state_in_bounds st"
    and inv: "history e' \<noteq> [] \<longrightarrow> state_in_bounds (last (history e'))" by simp_all
  from Cons.prems(1) have "list_all valid_input inputs" by simp
  from Cons.IH [OF this inv] obtain states self where
    "run_engine e' inputs = Inr (states, self)" "length states = length inputs"
    "list_all state_in_bounds states" by blast
  with c inp b show ?case by simp
qed

lemma states_in_bounds_exact:
  assumes "list_all valid_input inputs"
  shows "\<exists>states self. run_engine ConstraintEngine_init inputs = Inr (states, self)
           \<and> length states = length inputs \<and> list_all state_in_bounds states"
  using run_in_bounds [OF assms, of ConstraintEngine_init]
  by (simp add: ConstraintEngine_init_def)

lemma floor_run_valid: "list_all valid_input floor_run"
  by (simp add: floor_run_def floor_advisory_def floor_environment_def valid_input_def)

lemma floor_run_exact:
  "map (\<lambda>st. (cs_I st, cs_R st)) (fst (projr (run_engine ConstraintEngine_init floor_run)))
     = [(0.05, 0.1), (0.05, 0.1)]"
  by (simp add: floor_run_def floor_advisory_def floor_environment_def
      ConstraintEngine_init_def calculate_constraints_def I_raw_def R_raw_def S_raw_def
      pressure_score_def classification_score_def upper_def Let_def)

section \<open>Confidence\<close>

text \<open>
  Claim C9: the confidence is the clamp to [0.4, 0.95] of 0.6 with the three
  adjustments added independently, and lies in [0.4, 0.95].
\<close>

theorem confidence_formula_bounds:
  "calculate_confidence c = confidence_spec c
   \<and> 0.4 \<le> calculate_confidence c \<and> calculate_confidence c \<le> 0.95"
  by (simp add: calculate_confidence_def confidence_spec_def Let_def)


section \<open>Insight for an advisory without pressure\<close>

text \<open>
  Claim C10: for an advisory without pressure the insight fails with the
  \<^verbatim>\<open>TypeError\<close> of the summary, whereas the engine takes the neutral pressure score 0.5
  and returns a state.
\<close>

theorem insight_requires_pressure:
  assumes "nhc_current_pressure nhc = None"
  shows "summarize_nhc fmt nhc = Inl TypeError
     \<and> generate_insight fmt nhc constraints env = Inl TypeError
     \<and> pressure_score nhc = 0.5
     \<and> (env_potential_intensity env \<noteq> 0 \<longrightarrow>
          (\<exists>st self'. calculate_constraints self nhc env = Inr (st, self')))"
proof -
  have s: "summarize_nhc fmt nhc = Inl TypeError"
    using assms by (simp add: summarize_nhc_def)
  then have g: "generate_insight fmt nhc constraints env = Inl TypeError"
    by (simp add: generate_insight_def)
  have p: "pressure_score nhc = 0.5"
    using assms by (simp add: pressure_score_def)
  have "\<exists>st self'. calculate_constraints self nhc env = Inr (st, self')"
    if "env_potential_intensity env \<noteq> 0"
  proof -
    from that obtain raw where "I_raw nhc env = Inr raw" by (simp add: I_raw_def)
    from calculate_constraints_Inr [OF this, of self] show ?thesis by blast
  qed
  with s g p show ?thesis by blast
qed

theorem insight_requires_pressure_witness:
  "nhc_current_pressure (ian_advisory\<lparr>nhc_current_pressure := None\<rparr>) = None
   \<and> (\<forall>fmt. generate_insight fmt (ian_advisory\<lparr>nhc_current_pressure := None\<rparr>) ian_state
              ian_environment = Inl TypeError)
   \<and> pressure_score (ian_advisory\<lparr>nhc_current_pressure := None\<rparr>) = 0.5
   \<and> (\<exists>st self'. calculate_constraints ConstraintEngine_init
         (ian_advisory\<lparr>nhc_current_pressure := None\<rparr>) ian_environment = Inr (st, self'))"
proof -
  have n: "nhc_current_pressure (ian_advisory\<lparr>nhc_current_pressure := None\<rparr>) = None"
    by simp
  have e: "env_potential_intensity ian_environment \<noteq> 0" by (simp add: ian_environment_def)
  have "generate_insight fmt (ian_advisory\<lparr>nhc_current_pressure := None\<rparr>) ian_state
          ian_environment = Inl TypeError" for fmt
    using insight_requires_pressure [OF n, of fmt ian_state ian_environment ConstraintEngine_init]
    by blast
  moreover from insight_requires_pressure [OF n, of "\<lambda>x. []" ian_state ian_environment
      ConstraintEngine_init] e
  have "pressure_score (ian_advisory\<lparr>nhc_current_pressure := None\<rparr>) = 0.5
    \<and> (\<exists>st self'. calculate_constraints ConstraintEngine_init
         (ian_advisory\<lparr>nhc_current_pressure := None\<rparr>) ian_environment = Inr (st, self'))"
    by blast
  ultimately show ?thesis using n by blast
qed

end
